theory Spec2Isabelle
  imports Complex_Main "HOL-Library.Word"
begin

section \<open>JavaScript values as the handlers see them\<close>

text \<open>
  The request bodies are parsed JSON, and the option bag of \<^verbatim>\<open>/compress/file\<close> is the
  result of \<^verbatim>\<open>JSON.parse\<close>. A value is therefore \<^verbatim>\<open>undefined\<close> (an absent property),
  \<^verbatim>\<open>null\<close>, a boolean, a number, a string, an array or an object. A number is
  represented by the rational value of the parsed double; an object by its list of
  own properties, one binding per name.
\<close>

datatype jsval =
    JUndefined
  | JNull
  | JBool bool
  | JNum rat
  | JStr string
  | JArr "jsval list"
  | JObj "(string \<times> jsval) list"

text \<open>ToBoolean: what \<^verbatim>\<open>!x\<close>, \<^verbatim>\<open>if (x)\<close>, \<^verbatim>\<open>x || y\<close> and \<^verbatim>\<open>x && y\<close> test.\<close>

fun truthy :: "jsval \<Rightarrow> bool" where
  "truthy JUndefined = False"
| "truthy JNull = False"
| "truthy (JBool b) = b"
| "truthy (JNum n) = (n \<noteq> 0)"
| "truthy (JStr s) = (s \<noteq> [])"
| "truthy (JArr xs) = True"
| "truthy (JObj ps) = True"

text \<open>\<^verbatim>\<open>a || b\<close> yields the left operand itself when it is truthy.\<close>

definition js_or :: "jsval \<Rightarrow> jsval \<Rightarrow> jsval" where
  "js_or a b = (if truthy a then a else b)"

text \<open>
  Exceptions. Everything the handlers catch is either an \<^verbatim>\<open>Error\<close> instance, which
  carries a message, or some other thrown value.
\<close>

datatype exn = Error string | NonError

text \<open>
  Sequencing of steps that may throw: the first exception ends the sequence, as it
  leaves the \<^verbatim>\<open>try\<close> block.
\<close>

definition and_then :: "exn + 'a \<Rightarrow> ('a \<Rightarrow> exn + 'b) \<Rightarrow> exn + 'b" where
  "and_then r f = (case r of Inl e \<Rightarrow> Inl e | Inr x \<Rightarrow> f x)"

text \<open>
  Property read \<^verbatim>\<open>v.k\<close>. On \<^verbatim>\<open>undefined\<close> and \<^verbatim>\<open>null\<close> it throws a TypeError; on an
  object it yields the own property or \<^verbatim>\<open>undefined\<close>. The handlers read only the names
  image, format, options, resize, enabled, width, height, fitMethod, method, quality,
  progressive, lossless, near_lossless, use_sharp_yuv, effort, level and interlace;
  none of them is defined on a boolean, a number, a string or an array, where the
  read yields \<^verbatim>\<open>undefined\<close>.
\<close>

definition nullish :: "jsval \<Rightarrow> bool" where
  "nullish v = (v = JUndefined \<or> v = JNull)"

definition own :: "(string \<times> jsval) list \<Rightarrow> string \<Rightarrow> jsval" where
  "own ps k = (case map_of ps k of None \<Rightarrow> JUndefined | Some v \<Rightarrow> v)"

definition field :: "jsval \<Rightarrow> string \<Rightarrow> jsval" where
  "field v k = (case v of JObj ps \<Rightarrow> own ps k | _ \<Rightarrow> JUndefined)"

definition get :: "jsval \<Rightarrow> string \<Rightarrow> exn + jsval" where
  "get v k =
     (if nullish v
      then Inl (Error (''Cannot read properties of '' @
                       (if v = JNull then ''null'' else ''undefined'') @
                       '' (reading '' @ [CHR 0x27] @ k @ [CHR 0x27] @ '')''))
      else Inr (field v k))"

section \<open>Responses and requests\<close>

text \<open>
  What a handler sends: \<^verbatim>\<open>res.status(n).json(...)\<close> with one of the JSON shapes of
  \<^verbatim>\<open>types/index.ts\<close>, namely \<^verbatim>\<open>{error}\<close>, \<^verbatim>\<open>{width, height}\<close> and
  \<^verbatim>\<open>{image, size, format}\<close>, or \<^verbatim>\<open>res.send(buffer)\<close> after setting Content-Type and
  Content-Length (\<open>Binary\<close>: the two header values, then the bytes).
  \<^verbatim>\<open>res.json\<close> and \<^verbatim>\<open>res.send\<close> without \<^verbatim>\<open>res.status\<close> answer 200. \<open>ErrorPage\<close> is
  the page the framework itself sends for an error that no handler caught, made from
  the message of the error.
\<close>

datatype payload =
    ErrorJson string
  | InfoJson jsval jsval
  | CompressJson string nat jsval
  | Binary string string "8 word list"
  | ErrorPage string

datatype response = Response (status: nat) (sent: payload)

text \<open>
  A request as it reaches a route: the parsed header \<^verbatim>\<open>x-api-key\<close> among the headers,
  the own properties of \<^verbatim>\<open>req.body\<close> (the body parsers always leave an object there),
  the buffer of \<^verbatim>\<open>req.file\<close> (the uploaded \<^verbatim>\<open>image\<close> part) when there is one, and the
  \<^verbatim>\<open>apiKey\<close> the auth middleware records.
\<close>

record request =
  headers :: "string \<Rightarrow> string option"
  body :: "(string \<times> jsval) list"
  req_file :: "8 word list option"
  apiKey :: "string option"

section \<open>Auth gate (middleware/auth.ts)\<close>

text \<open>
  \<^verbatim>\<open>const API_KEY = process.env.API_KEY || 'your-secure-api-key-here'\<close>: the process
  environment is a map from names to strings.
\<close>

definition API_KEY :: "(string \<Rightarrow> string option) \<Rightarrow> string" where
  "API_KEY env =
     (case env ''API_KEY'' of
        None \<Rightarrow> ''your-secure-api-key-here''
      | Some k \<Rightarrow> if k \<noteq> [] then k else ''your-secure-api-key-here'')"

text \<open>
  A middleware either sends a response (\<open>Inl\<close>) or calls \<^verbatim>\<open>next()\<close> with the request
  (\<open>Inr\<close>).
\<close>

definition validateApiKey ::
  "(string \<Rightarrow> string option) \<Rightarrow> request \<Rightarrow> response + request" where
  "validateApiKey env req =
     (case headers req ''x-api-key'' of
        None \<Rightarrow> Inl (Response 401 (ErrorJson ''API key is required''))
      | Some k \<Rightarrow>
          if k = [] then Inl (Response 401 (ErrorJson ''API key is required''))
          else if k \<noteq> API_KEY env then Inl (Response 403 (ErrorJson ''Invalid API key''))
          else Inr (req\<lparr>apiKey := Some k\<rparr>))"

definition optionalApiKey ::
  "(string \<Rightarrow> string option) \<Rightarrow> request \<Rightarrow> response + request" where
  "optionalApiKey env req =
     (let enableAuth = (env ''ENABLE_AUTH'' = Some ''true'')
      in if \<not> enableAuth then Inr req else validateApiKey env req)"

section \<open>Runtime and library the handlers call\<close>

subsection \<open>Base64, as \<^verbatim>\<open>buf.toString("base64")\<close> and \<^verbatim>\<open>Buffer.from(s, "base64")\<close> compute it\<close>

text \<open>
  Encoding writes each group of three bytes as four characters of the standard
  alphabet and pads the last group with \<^verbatim>\<open>=\<close>. Decoding is the lenient one of Node:
  it stops at the first \<^verbatim>\<open>=\<close>, skips every character outside the alphabet (the
  URL-safe \<^verbatim>\<open>-\<close> and \<^verbatim>\<open>_\<close> count as 62 and 63), and a trailing group of two or
  three characters gives one or two bytes.
\<close>

definition b64_char :: "nat \<Rightarrow> char" where
  "b64_char n =
     ''ABCDEFGHIJKLMNOPQRSTUVWXYZabcdefghijklmnopqrstuvwxyz0123456789+/'' ! n"

definition b64_value :: "char \<Rightarrow> nat option" where
  "b64_value c =
     (let k = (of_char c :: nat) in
      if 65 \<le> k \<and> k \<le> 90 then Some (k - 65)
      else if 97 \<le> k \<and> k \<le> 122 then Some (k - 71)
      else if 48 \<le> k \<and> k \<le> 57 then Some (k + 4)
      else if c = CHR ''+'' \<or> c = CHR ''-'' then Some 62
      else if c = CHR ''/'' \<or> c = CHR ''_'' then Some 63
      else None)"

fun base64_encode :: "8 word list \<Rightarrow> string" where
  "base64_encode [] = []"
| "base64_encode [a] =
     [b64_char (unat a div 4), b64_char (unat a mod 4 * 16), CHR ''='', CHR ''='']"
| "base64_encode [a, b] =
     [b64_char (unat a div 4), b64_char (unat a mod 4 * 16 + unat b div 16),
      b64_char (unat b mod 16 * 4), CHR ''='']"
| "base64_encode (a # b # c # bs) =
     [b64_char (unat a div 4), b64_char (unat a mod 4 * 16 + unat b div 16),
      b64_char (unat b mod 16 * 4 + unat c div 64), b64_char (unat c mod 64)]
     @ base64_encode bs"

fun decode_sextets :: "nat list \<Rightarrow> 8 word list" where
  "decode_sextets (s1 # s2 # s3 # s4 # ss) =
     [of_nat (s1 * 4 + s2 div 16), of_nat (s2 mod 16 * 16 + s3 div 4),
      of_nat (s3 mod 4 * 64 + s4)] @ decode_sextets ss"
| "decode_sextets [s1, s2, s3] =
     [of_nat (s1 * 4 + s2 div 16), of_nat (s2 mod 16 * 16 + s3 div 4)]"
| "decode_sextets [s1, s2] = [of_nat (s1 * 4 + s2 div 16)]"
| "decode_sextets _ = []"

definition base64_decode :: "string \<Rightarrow> 8 word list" where
  "base64_decode s =
     decode_sextets (List.map_filter b64_value (takeWhile (\<lambda>c. c \<noteq> CHR ''='') s))"

subsection \<open>The JavaScript runtime\<close>

text \<open>
  What the handlers take from the runtime and do not define themselves: the process
  environment, \<^verbatim>\<open>JSON.parse\<close> (\<open>None\<close> when it throws), the rendering of a number
  in a template literal, and \<^verbatim>\<open>Buffer.from\<close> on an argument that is not a string.
\<close>

record runtime =
  env :: "string \<Rightarrow> string option"
  JSON_parse :: "string \<Rightarrow> jsval option"
  Number_toString :: "rat \<Rightarrow> string"
  Buffer_from_other :: "jsval \<Rightarrow> exn + 8 word list"

fun join_comma :: "string list \<Rightarrow> string" where
  "join_comma [] = []"
| "join_comma [x] = x"
| "join_comma (x # y # zs) = x @ '','' @ join_comma (y # zs)"

text \<open>
  ToString, as a template literal \<^verbatim>\<open>`${v}`\<close> and \<^verbatim>\<open>JSON.parse(v)\<close> apply it. An array
  joins its elements with commas, \<^verbatim>\<open>null\<close> and \<^verbatim>\<open>undefined\<close> elements being empty.
\<close>

fun ToString :: "runtime \<Rightarrow> jsval \<Rightarrow> string" where
  "ToString rt JUndefined = ''undefined''"
| "ToString rt JNull = ''null''"
| "ToString rt (JBool b) = (if b then ''true'' else ''false'')"
| "ToString rt (JNum n) = Number_toString rt n"
| "ToString rt (JStr s) = s"
| "ToString rt (JArr xs) =
     join_comma (map (\<lambda>x. if x = JUndefined \<or> x = JNull then [] else ToString rt x) xs)"
| "ToString rt (JObj ps) = ''[object Object]''"

text \<open>\<^verbatim>\<open>Buffer.from(image, "base64")\<close>.\<close>

definition Buffer_from :: "runtime \<Rightarrow> jsval \<Rightarrow> exn + 8 word list" where
  "Buffer_from rt v = (case v of JStr s \<Rightarrow> Inr (base64_decode s) | _ \<Rightarrow> Buffer_from_other rt v)"

text \<open>\<^verbatim>\<open>n.toString()\<close> of a length: decimal digits.\<close>

function decimal :: "nat \<Rightarrow> string" where
  "decimal n =
     (if n < 10 then [''0123456789'' ! n]
      else decimal (n div 10) @ [''0123456789'' ! (n mod 10)])"
  by pat_completeness auto
termination
  by (relation "measure (\<lambda>n. n)") auto

subsection \<open>The image library\<close>

text \<open>
  The options object handed to \<^verbatim>\<open>.jpeg()\<close>, \<^verbatim>\<open>.webp()\<close>, \<^verbatim>\<open>.avif()\<close> or \<^verbatim>\<open>.png()\<close>; the
  constructor says which entry point is called. \<^verbatim>\<open>x || d\<close> leaves whatever truthy value
  the caller sent, so these fields are JavaScript values; the flags are results of
  \<^verbatim>\<open>===\<close> and \<^verbatim>\<open>!==\<close>.
\<close>

datatype encoder =
    Jpeg (quality: jsval) (progressive: bool) (mozjpeg: bool)
  | Webp (quality: jsval) (lossless: bool) (nearLossless: bool) (smartSubsample: bool)
         (effort: jsval)
  | Avif (quality: jsval) (lossless: bool) (effort: jsval)
  | Png (compressionLevel: jsval) (progressive: bool) (effort: jsval)

text \<open>\<^verbatim>\<open>sharp.ResizeOptions\<close>: \<open>None\<close> is a property the handler did not set.\<close>

record resize_options =
  width :: "jsval option"
  height :: "jsval option"
  fit :: "string option"
  kernel :: "string option"

text \<open>
  The library is an external collaborator. \<open>'h\<close> is its image handle (the
  \<^verbatim>\<open>sharpInstance\<close>); every entry point may throw; \<^verbatim>\<open>metadata\<close> yields width and
  height, either of which may be \<^verbatim>\<open>undefined\<close>.
\<close>

record 'h sharp_api =
  sharp :: "8 word list \<Rightarrow> exn + 'h"
  resize :: "'h \<Rightarrow> resize_options \<Rightarrow> exn + 'h"
  encode :: "'h \<Rightarrow> encoder \<Rightarrow> exn + 'h"
  toBuffer :: "'h \<Rightarrow> exn + 8 word list"
  metadata :: "'h \<Rightarrow> exn + jsval \<times> jsval"

section \<open>Request handlers (server.ts)\<close>

text \<open>
  Calls to the logger are left out: they write to the log and have no part in the
  response.
\<close>

subsection \<open>Option mapping\<close>

text \<open>
  The object literals of the format switch. Both \<^verbatim>\<open>/compress\<close> (lines 181-185, 190-196,
  200-204, 209-213) and \<^verbatim>\<open>/compress/file\<close> (lines 300-304, 309-315, 320-324, 330-334)
  write the same four literals; the properties of \<^verbatim>\<open>options\<close> are read in the order
  written.
\<close>

definition jpeg_options :: "jsval \<Rightarrow> exn + encoder" where
  "jpeg_options options =
     and_then (get options ''quality'') (\<lambda>q.
     and_then (get options ''progressive'') (\<lambda>p.
       Inr (Jpeg (js_or q (JNum 75)) (p \<noteq> JBool False) True)))"

definition webp_options :: "jsval \<Rightarrow> exn + encoder" where
  "webp_options options =
     and_then (get options ''quality'') (\<lambda>q.
     and_then (get options ''lossless'') (\<lambda>l.
     and_then (get options ''near_lossless'') (\<lambda>nl.
     and_then (get options ''use_sharp_yuv'') (\<lambda>y.
     and_then (get options ''method'') (\<lambda>m.
       Inr (Webp (js_or q (JNum 75)) (l = JBool True) (nl = JBool True) (y \<noteq> JBool False)
                 (js_or m (JNum 4))))))))"

definition avif_options :: "jsval \<Rightarrow> exn + encoder" where
  "avif_options options =
     and_then (get options ''quality'') (\<lambda>q.
     and_then (get options ''lossless'') (\<lambda>l.
     and_then (get options ''effort'') (\<lambda>e.
       Inr (Avif (js_or q (JNum 50)) (l = JBool True) (js_or e (JNum 4))))))"

definition png_options :: "jsval \<Rightarrow> exn + encoder" where
  "png_options options =
     and_then (get options ''level'') (\<lambda>lv.
     and_then (get options ''interlace'') (\<lambda>i.
     and_then (get options ''effort'') (\<lambda>e.
       Inr (Png (js_or lv (JNum 2)) (i = JBool True) (js_or e (JNum 7))))))"

text \<open>
  The format switch of \<^verbatim>\<open>/compress\<close> (lines 176-219): the encoder call and the value of
  \<^verbatim>\<open>outputFormat\<close>, which starts as \<^verbatim>\<open>format\<close>; the default case throws.
\<close>

definition compress_format :: "runtime \<Rightarrow> jsval \<Rightarrow> jsval \<Rightarrow> exn + encoder \<times> jsval" where
  "compress_format rt format options =
     (if format = JStr ''mozjpeg'' \<or> format = JStr ''jpeg'' then
        and_then (jpeg_options options) (\<lambda>enc. Inr (enc, JStr ''mozjpeg''))
      else if format = JStr ''webp'' then
        and_then (webp_options options) (\<lambda>enc. Inr (enc, format))
      else if format = JStr ''avif'' then
        and_then (avif_options options) (\<lambda>enc. Inr (enc, format))
      else if format = JStr ''oxipng'' \<or> format = JStr ''png'' then
        and_then (png_options options) (\<lambda>enc. Inr (enc, JStr ''oxipng''))
      else Inl (Error (''Unsupported format: '' @ ToString rt format)))"

text \<open>
  The format switch of \<^verbatim>\<open>/compress/file\<close> (lines 297-341): the encoder call and the
  content type; \<open>None\<close> is the default case, which answers 400 and returns.
\<close>

definition file_format :: "jsval \<Rightarrow> jsval \<Rightarrow> exn + (encoder \<times> string) option" where
  "file_format format options =
     (if format = JStr ''mozjpeg'' \<or> format = JStr ''jpeg'' then
        and_then (jpeg_options options) (\<lambda>enc. Inr (Some (enc, ''image/jpeg'')))
      else if format = JStr ''webp'' then
        and_then (webp_options options) (\<lambda>enc. Inr (Some (enc, ''image/webp'')))
      else if format = JStr ''avif'' then
        and_then (avif_options options) (\<lambda>enc. Inr (Some (enc, ''image/avif'')))
      else if format = JStr ''oxipng'' \<or> format = JStr ''png'' then
        and_then (png_options options) (\<lambda>enc. Inr (Some (enc, ''image/png'')))
      else Inr None)"

subsection \<open>Resize planning (lines 134-172)\<close>

text \<open>
  Run only under \<^verbatim>\<open>resize && resize.enabled\<close>, so \<^verbatim>\<open>resize\<close> is truthy and its
  properties can be read. A property of \<^verbatim>\<open>resizeOptions\<close> is assigned only inside its
  \<^verbatim>\<open>if\<close>.
\<close>

definition resizeOptions :: "jsval \<Rightarrow> resize_options" where
  "resizeOptions rz =
     \<lparr> width = (if truthy (field rz ''width'') then Some (field rz ''width'') else None),
       height = (if truthy (field rz ''height'') then Some (field rz ''height'') else None),
       fit = (if truthy (field rz ''fitMethod'') then
                Some (if field rz ''fitMethod'' = JStr ''stretch'' then ''fill''
                      else if field rz ''fitMethod'' = JStr ''contain'' then ''inside''
                      else ''cover'')
              else None),
       kernel = (if truthy (field rz ''method'') then
                   Some (if field rz ''method'' = JStr ''lanczos3'' then ''lanczos3''
                         else if field rz ''method'' = JStr ''mitchell'' then ''mitchell''
                         else if field rz ''method'' = JStr ''catrom'' then ''cubic''
                         else ''lanczos3'')
                 else None) \<rparr>"

definition apply_resize :: "'h sharp_api \<Rightarrow> 'h \<Rightarrow> jsval \<Rightarrow> exn + 'h" where
  "apply_resize lib s rz =
     (if truthy rz \<and> truthy (field rz ''enabled'') then resize lib s (resizeOptions rz)
      else Inr s)"

text \<open>
  Modelled from the spec: what the library does with a resize invocation that names no
  fit or no kernel. The library is not part of the repository; spec 4.2 has "cover is
  the default" for the fit and spec 2 has "default lanczos3" for the kernel. Width and
  height are left as they are.
\<close>

definition sharp_defaults :: "resize_options \<Rightarrow> resize_options" where
  "sharp_defaults ro =
     ro\<lparr> fit := Some (case fit ro of None \<Rightarrow> ''cover'' | Some f \<Rightarrow> f),
         kernel := Some (case kernel ro of None \<Rightarrow> ''lanczos3'' | Some k \<Rightarrow> k) \<rparr>"

subsection \<open>The handlers\<close>

text \<open>The \<^verbatim>\<open>catch\<close> block of each handler.\<close>

definition caught :: "exn \<Rightarrow> response" where
  "caught e =
     Response 500 (ErrorJson (case e of Error m \<Rightarrow> m | NonError \<Rightarrow> ''Unknown error occurred''))"

text \<open>\<^verbatim>\<open>POST /info\<close> (lines 63-95).\<close>

definition info_handler :: "runtime \<Rightarrow> 'h sharp_api \<Rightarrow> request \<Rightarrow> response" where
  "info_handler rt lib req =
     (let image = own (body req) ''image'' in
      if \<not> truthy image then Response 400 (ErrorJson ''Image data required'')
      else
        case and_then (Buffer_from rt image) (\<lambda>imageBuffer.
             and_then (sharp lib imageBuffer) (\<lambda>s.
               metadata lib s))
        of Inl e \<Rightarrow> caught e
         | Inr (w, h) \<Rightarrow> Response 200 (InfoJson (js_or w (JNum 0)) (js_or h (JNum 0))))"

text \<open>
  \<^verbatim>\<open>POST /compress\<close> (lines 101-259). The destructuring defaults apply to an
  \<^verbatim>\<open>undefined\<close> property only.
\<close>

definition compress_handler :: "runtime \<Rightarrow> 'h sharp_api \<Rightarrow> request \<Rightarrow> response" where
  "compress_handler rt lib req =
     (let image = own (body req) ''image'';
          format = (case own (body req) ''format'' of JUndefined \<Rightarrow> JStr ''mozjpeg'' | v \<Rightarrow> v);
          rz = (case own (body req) ''resize'' of JUndefined \<Rightarrow> JNull | v \<Rightarrow> v);
          options = js_or (own (body req) ''options'') (JObj [])
      in
      if \<not> truthy image then Response 400 (ErrorJson ''Image data required'')
      else
        case and_then (Buffer_from rt image) (\<lambda>imageBuffer.
             and_then (sharp lib imageBuffer) (\<lambda>s0.
             and_then (apply_resize lib s0 rz) (\<lambda>s1.
             and_then (compress_format rt format options) (\<lambda>(enc, outputFormat).
             and_then (encode lib s1 enc) (\<lambda>s2.
             and_then (toBuffer lib s2) (\<lambda>outputBuffer.
               Inr (outputBuffer, outputFormat)))))))
        of Inl e \<Rightarrow> caught e
         | Inr (outputBuffer, outputFormat) \<Rightarrow>
             Response 200
               (CompressJson (base64_encode outputBuffer) (length outputBuffer) outputFormat))"

text \<open>
  \<^verbatim>\<open>POST /compress/file\<close> (lines 270-366). \<^verbatim>\<open>JSON.parse\<close> has a \<^verbatim>\<open>try\<close> of its own;
  the default case of the switch answers 400 from inside the outer one.
\<close>

definition compress_file_handler :: "runtime \<Rightarrow> 'h sharp_api \<Rightarrow> request \<Rightarrow> response" where
  "compress_file_handler rt lib req =
     (case req_file req of
        None \<Rightarrow> Response 400 (ErrorJson ''No file uploaded'')
      | Some buffer \<Rightarrow>
          let format = js_or (own (body req) ''format'') (JStr ''mozjpeg'') in
          case (if truthy (own (body req) ''options'')
                then JSON_parse rt (ToString rt (own (body req) ''options''))
                else Some (JObj []))
          of None \<Rightarrow> Response 400 (ErrorJson ''Invalid options JSON'')
           | Some options \<Rightarrow>
               (case and_then (sharp lib buffer) (\<lambda>s0.
                     and_then (file_format format options) (\<lambda>sel.
                       case sel of
                         None \<Rightarrow>
                           Inr (Response 400
                                  (ErrorJson (''Unsupported format: '' @ ToString rt format)))
                       | Some (enc, contentType) \<Rightarrow>
                           and_then (encode lib s0 enc) (\<lambda>s1.
                           and_then (toBuffer lib s1) (\<lambda>outputBuffer.
                             Inr (Response 200
                                    (Binary contentType (decimal (length outputBuffer))
                                       outputBuffer))))))
                of Inl e \<Rightarrow> caught e
                 | Inr r \<Rightarrow> r))"

subsection \<open>The routes\<close>

text \<open>
  Each data endpoint runs \<^verbatim>\<open>optionalApiKey\<close> and then its handler (lines 60-62, 98-100,
  266-269). For \<^verbatim>\<open>/compress/file\<close> the request here already holds what
  \<^verbatim>\<open>upload.single("image")\<close> stores in \<^verbatim>\<open>req.file\<close> and \<^verbatim>\<open>req.body\<close>; the upload itself
  follows below.
\<close>

definition post_info :: "runtime \<Rightarrow> 'h sharp_api \<Rightarrow> request \<Rightarrow> response" where
  "post_info rt lib req =
     (case optionalApiKey (env rt) req of Inl r \<Rightarrow> r | Inr req' \<Rightarrow> info_handler rt lib req')"

definition post_compress :: "runtime \<Rightarrow> 'h sharp_api \<Rightarrow> request \<Rightarrow> response" where
  "post_compress rt lib req =
     (case optionalApiKey (env rt) req of Inl r \<Rightarrow> r | Inr req' \<Rightarrow> compress_handler rt lib req')"

definition post_compress_file :: "runtime \<Rightarrow> 'h sharp_api \<Rightarrow> request \<Rightarrow> response" where
  "post_compress_file rt lib req =
     (case optionalApiKey (env rt) req of
        Inl r \<Rightarrow> r
      | Inr req' \<Rightarrow> compress_file_handler rt lib req')"

subsection \<open>The upload middleware in front of \<^verbatim>\<open>/compress/file\<close>\<close>

text \<open>
  Between the auth gate and the handler the route runs \<^verbatim>\<open>upload.single("image")\<close>
  (line 269), configured at lines 23-26 with memory storage and a file size limit of
  50 MiB. A request that is not multipart passes untouched. Of a multipart request the
  parts are taken in order: a text field is appended to a fresh \<^verbatim>\<open>req.body\<close>; a file part
  without a file name is skipped; a file part under another field name than \<^verbatim>\<open>image\<close>, or
  a second file, is refused as an unexpected field; a file over the limit is refused;
  otherwise its bytes become \<^verbatim>\<open>req.file.buffer\<close>. The first refusal ends the upload and is
  passed to \<^verbatim>\<open>next(err)\<close>.

  A part is a text field (name, value) or a file part (field name, file name, bytes).
  How a field is appended to the body, and whether the multipart parser refuses a text
  field for its size (\<open>Some\<close> the message of the error), are left to the middleware.
\<close>

datatype part = Field string string | File string string "8 word list"

record upload_api =
  appendField :: "(string \<times> jsval) list \<Rightarrow> string \<Rightarrow> string \<Rightarrow> (string \<times> jsval) list"
  field_limit :: "string \<Rightarrow> string \<Rightarrow> string option"

fun upload_parts ::
  "upload_api \<Rightarrow> part list \<Rightarrow> (string \<times> jsval) list \<Rightarrow> 8 word list option \<Rightarrow>
     exn + (string \<times> jsval) list \<times> 8 word list option" where
  "upload_parts up [] b f = Inr (b, f)"
| "upload_parts up (Field name v # ps) b f =
     (case field_limit up name v of
        Some msg \<Rightarrow> Inl (Error msg)
      | None \<Rightarrow> upload_parts up ps (appendField up b name v) f)"
| "upload_parts up (File fieldname filename content # ps) b f =
     (if filename = [] then upload_parts up ps b f
      else if fieldname \<noteq> ''image'' \<or> f \<noteq> None then Inl (Error ''Unexpected field'')
      else if length content > 50 * 1024 * 1024 then Inl (Error ''File too large'')
      else upload_parts up ps b (Some content))"

text \<open>
  \<open>mp\<close> is the multipart content of the request, \<open>None\<close> when the request is not
  multipart.
\<close>

definition upload_single :: "upload_api \<Rightarrow> part list option \<Rightarrow> request \<Rightarrow> exn + request" where
  "upload_single up mp req =
     (case mp of
        None \<Rightarrow> Inr req
      | Some ps \<Rightarrow>
          (case upload_parts up ps [] None of
             Inl e \<Rightarrow> Inl e
           | Inr (b, f) \<Rightarrow> Inr (req\<lparr>body := b, req_file := f\<rparr>)))"

text \<open>
  \<^verbatim>\<open>server.ts\<close> installs no error middleware, so an error passed to \<^verbatim>\<open>next(err)\<close> reaches the
  default error handler of the framework, which answers 500 for an error that carries
  no status of its own, with a page made from the error.
\<close>

definition default_error_handler :: "exn \<Rightarrow> response" where
  "default_error_handler e =
     Response 500 (ErrorPage (case e of Error m \<Rightarrow> m | NonError \<Rightarrow> []))"

text \<open>The upload middleware and then the handler (lines 269-270).\<close>

definition compress_file_endpoint ::
  "runtime \<Rightarrow> upload_api \<Rightarrow> 'h sharp_api \<Rightarrow> part list option \<Rightarrow> request \<Rightarrow> response" where
  "compress_file_endpoint rt up lib mp req =
     (case upload_single up mp req of
        Inl e \<Rightarrow> default_error_handler e
      | Inr req' \<Rightarrow> compress_file_handler rt lib req')"

text \<open>
  A request as it arrives, with headers and a parsed body: no middleware has set
  \<^verbatim>\<open>req.file\<close> or \<^verbatim>\<open>req.apiKey\<close> yet.
\<close>

definition incoming :: "(string \<Rightarrow> string option) \<Rightarrow> (string \<times> jsval) list \<Rightarrow> request" where
  "incoming hs b = \<lparr>headers = hs, body = b, req_file = None, apiKey = None\<rparr>"



section \<open>A sample runtime and library\<close>

text \<open>
  For evaluating the handlers at concrete requests. The sample runtime has
  authentication switched on with the key \<^verbatim>\<open>secret\<close>; its \<^verbatim>\<open>JSON.parse\<close> knows the texts
  \<^verbatim>\<open>{}\<close> and \<^verbatim>\<open>null\<close> and is used otherwise only on malformed text. The sample library
  takes the bytes as the image handle, rejects an empty buffer in its constructor, and
  hands the bytes back unchanged.
\<close>

definition sample_runtime :: runtime where
  "sample_runtime =
     \<lparr> env = (\<lambda>k. if k = ''ENABLE_AUTH'' then Some ''true''
                  else if k = ''API_KEY'' then Some ''secret'' else None),
       JSON_parse = (\<lambda>s. if s = ''{}'' then Some (JObj [])
                         else if s = ''null'' then Some JNull else None),
       Number_toString = (\<lambda>n. decimal (nat \<lfloor>n\<rfloor>)),
       Buffer_from_other = (\<lambda>v. Inl (Error ''The first argument must be of type string'')) \<rparr>"

definition sample_lib :: "8 word list sharp_api" where
  "sample_lib =
     \<lparr> sharp = (\<lambda>b. if b = [] then Inl (Error ''Input Buffer is empty'') else Inr b),
       resize = (\<lambda>s ro. Inr s),
       encode = (\<lambda>s enc. Inr s),
       toBuffer = (\<lambda>s. Inr s),
       metadata = (\<lambda>s. Inr (JNum 1, JNum 1)) \<rparr>"

text \<open>
  The sample upload middleware appends a field under its name, making an array of the
  values when a name repeats, and refuses a text field of more than 1 MiB.
\<close>

definition sample_upload :: upload_api where
  "sample_upload =
     \<lparr> appendField = (\<lambda>b k v.
         case map_of b k of
           None \<Rightarrow> b @ [(k, JStr v)]
         | Some (JArr xs) \<Rightarrow>
             map (\<lambda>(k', x). if k' = k then (k', JArr (xs @ [JStr v])) else (k', x)) b
         | Some old \<Rightarrow>
             map (\<lambda>(k', x). if k' = k then (k', JArr [old, JStr v]) else (k', x)) b),
       field_limit = (\<lambda>name v. if length v > 1024 * 1024 then Some ''Field value too long''
                              else None) \<rparr>"

definition with_key :: "string option \<Rightarrow> string \<Rightarrow> string option" where
  "with_key k h = (if h = ''x-api-key'' then k else None)"

section \<open>Auxiliary facts\<close>

subsection \<open>Sequencing and property reads\<close>

lemma and_then_simps [simp]:
  "and_then (Inl e) f = Inl e"
  "and_then (Inr x) f = f x"
  by (simp_all add: and_then_def)

lemma and_then_Inr_iff:
  "and_then r f = Inr y \<longleftrightarrow> (\<exists>x. r = Inr x \<and> f x = Inr y)"
  by (cases r) simp_all

lemma get_defined: "\<not> nullish v \<Longrightarrow> get v k = Inr (field v k)"
  by (simp add: get_def)

lemma truthy_not_nullish: "truthy v \<Longrightarrow> \<not> nullish v"
  by (auto simp: nullish_def)

lemma js_or_object_defined: "\<not> nullish (js_or x (JObj ps))"
  by (auto simp: js_or_def nullish_def)

lemma field_defined: "field v k \<noteq> JUndefined \<Longrightarrow> \<not> nullish v"
  by (auto simp: field_def nullish_def)

subsection \<open>The four object literals on an option bag that can be read\<close>

lemma jpeg_options_defined:
  "\<not> nullish options \<Longrightarrow>
   jpeg_options options =
     Inr (Jpeg (js_or (field options ''quality'') (JNum 75))
               (field options ''progressive'' \<noteq> JBool False) True)"
  by (simp add: jpeg_options_def get_defined)

lemma webp_options_defined:
  "\<not> nullish options \<Longrightarrow>
   webp_options options =
     Inr (Webp (js_or (field options ''quality'') (JNum 75))
               (field options ''lossless'' = JBool True)
               (field options ''near_lossless'' = JBool True)
               (field options ''use_sharp_yuv'' \<noteq> JBool False)
               (js_or (field options ''method'') (JNum 4)))"
  by (simp add: webp_options_def get_defined)

lemma avif_options_defined:
  "\<not> nullish options \<Longrightarrow>
   avif_options options =
     Inr (Avif (js_or (field options ''quality'') (JNum 50))
               (field options ''lossless'' = JBool True)
               (js_or (field options ''effort'') (JNum 4)))"
  by (simp add: avif_options_def get_defined)

lemma png_options_defined:
  "\<not> nullish options \<Longrightarrow>
   png_options options =
     Inr (Png (js_or (field options ''level'') (JNum 2))
              (field options ''interlace'' = JBool True)
              (js_or (field options ''effort'') (JNum 7)))"
  by (simp add: png_options_def get_defined)

subsection \<open>Defaults and the two format switches\<close>

lemma js_or_absent [simp]: "js_or JUndefined d = d"
  by (simp add: js_or_def)

lemma js_or_zero [simp]: "js_or (JNum 0) d = d"
  by (simp add: js_or_def)

lemma js_or_cases: "js_or a d = (if truthy a then a else d)"
  by (simp add: js_or_def)

lemma compress_format_defined:
  "\<not> nullish options \<Longrightarrow>
   compress_format rt format options =
     (if format = JStr ''mozjpeg'' \<or> format = JStr ''jpeg'' then
        Inr (Jpeg (js_or (field options ''quality'') (JNum 75))
                  (field options ''progressive'' \<noteq> JBool False) True, JStr ''mozjpeg'')
      else if format = JStr ''webp'' then
        Inr (Webp (js_or (field options ''quality'') (JNum 75))
                  (field options ''lossless'' = JBool True)
                  (field options ''near_lossless'' = JBool True)
                  (field options ''use_sharp_yuv'' \<noteq> JBool False)
                  (js_or (field options ''method'') (JNum 4)), format)
      else if format = JStr ''avif'' then
        Inr (Avif (js_or (field options ''quality'') (JNum 50))
                  (field options ''lossless'' = JBool True)
                  (js_or (field options ''effort'') (JNum 4)), format)
      else if format = JStr ''oxipng'' \<or> format = JStr ''png'' then
        Inr (Png (js_or (field options ''level'') (JNum 2))
                 (field options ''interlace'' = JBool True)
                 (js_or (field options ''effort'') (JNum 7)), JStr ''oxipng'')
      else Inl (Error (''Unsupported format: '' @ ToString rt format)))"
  by (simp add: compress_format_def jpeg_options_defined webp_options_defined
      avif_options_defined png_options_defined)

lemma file_format_defined:
  "\<not> nullish options \<Longrightarrow>
   file_format format options =
     (if format = JStr ''mozjpeg'' \<or> format = JStr ''jpeg'' then
        Inr (Some (Jpeg (js_or (field options ''quality'') (JNum 75))
                  (field options ''progressive'' \<noteq> JBool False) True, ''image/jpeg''))
      else if format = JStr ''webp'' then
        Inr (Some (Webp (js_or (field options ''quality'') (JNum 75))
                  (field options ''lossless'' = JBool True)
                  (field options ''near_lossless'' = JBool True)
                  (field options ''use_sharp_yuv'' \<noteq> JBool False)
                  (js_or (field options ''method'') (JNum 4)), ''image/webp''))
      else if format = JStr ''avif'' then
        Inr (Some (Avif (js_or (field options ''quality'') (JNum 50))
                  (field options ''lossless'' = JBool True)
                  (js_or (field options ''effort'') (JNum 4)), ''image/avif''))
      else if format = JStr ''oxipng'' \<or> format = JStr ''png'' then
        Inr (Some (Png (js_or (field options ''level'') (JNum 2))
                 (field options ''interlace'' = JBool True)
                 (js_or (field options ''effort'') (JNum 7)), ''image/png''))
      else Inr None)"
  by (simp add: file_format_def jpeg_options_defined webp_options_defined
      avif_options_defined png_options_defined)

lemma zero_defined: "field v k = JNum 0 \<Longrightarrow> \<not> nullish v"
  using field_defined [of v k] by simp

lemma zero_like:
  assumes "a = b \<or> (a = JNum 0 \<and> b = JUndefined)"
  shows "js_or a d = js_or b d" and "(a = JBool t) = (b = JBool t)"
    and "truthy a = truthy b" and "(a = JStr s) = (b = JStr s)" and "truthy a \<Longrightarrow> a = b"
  using assms by auto

subsection \<open>The auth gate\<close>

lemma API_KEY_nonempty: "API_KEY e \<noteq> []"
  by (simp add: API_KEY_def split: option.splits)

lemma optionalApiKey_cases:
  "optionalApiKey e req =
     (if e ''ENABLE_AUTH'' \<noteq> Some ''true'' then Inr req
      else if headers req ''x-api-key'' = None \<or> headers req ''x-api-key'' = Some []
        then Inl (Response 401 (ErrorJson ''API key is required''))
      else if headers req ''x-api-key'' \<noteq> Some (API_KEY e)
        then Inl (Response 403 (ErrorJson ''Invalid API key''))
      else Inr (req\<lparr>apiKey := Some (API_KEY e)\<rparr>))"
  by (auto simp: optionalApiKey_def validateApiKey_def API_KEY_nonempty split: option.splits)

lemma optionalApiKey_next:
  "optionalApiKey e req = Inr req' \<Longrightarrow> body req' = body req \<and> req_file req' = req_file req"
  by (auto simp: optionalApiKey_cases split: if_splits)

subsection \<open>What a 200 answer of \<^verbatim>\<open>/compress\<close> consists of\<close>

lemma compress_format_output:
  assumes "compress_format rt format options = Inr (enc, outputFormat)"
  shows "((format = JStr ''mozjpeg'' \<or> format = JStr ''jpeg'') \<and> outputFormat = JStr ''mozjpeg'')
       \<or> (format = JStr ''webp'' \<and> outputFormat = JStr ''webp'')
       \<or> (format = JStr ''avif'' \<and> outputFormat = JStr ''avif'')
       \<or> ((format = JStr ''oxipng'' \<or> format = JStr ''png'') \<and> outputFormat = JStr ''oxipng'')"
  using assms
  by (auto simp: compress_format_def and_then_Inr_iff split: if_splits)

lemma caught_status: "caught e \<noteq> Response 200 p"
  by (simp add: caught_def)

lemma compress_handler_200:
  assumes "compress_handler rt lib req = Response 200 p"
  shows "\<exists>enc outputFormat s out.
           compress_format rt
             (case own (body req) ''format'' of JUndefined \<Rightarrow> JStr ''mozjpeg'' | v \<Rightarrow> v)
             (js_or (own (body req) ''options'') (JObj [])) = Inr (enc, outputFormat)
         \<and> toBuffer lib s = Inr out
         \<and> p = CompressJson (base64_encode out) (length out) outputFormat"
proof -
  let ?run = "and_then (Buffer_from rt (own (body req) ''image'')) (\<lambda>imageBuffer.
             and_then (sharp lib imageBuffer) (\<lambda>s0.
             and_then (apply_resize lib s0
                (case own (body req) ''resize'' of JUndefined \<Rightarrow> JNull | v \<Rightarrow> v)) (\<lambda>s1.
             and_then (compress_format rt
                (case own (body req) ''format'' of JUndefined \<Rightarrow> JStr ''mozjpeg'' | v \<Rightarrow> v)
                (js_or (own (body req) ''options'') (JObj []))) (\<lambda>(enc, outputFormat).
             and_then (encode lib s1 enc) (\<lambda>s2.
             and_then (toBuffer lib s2) (\<lambda>outputBuffer.
               Inr (outputBuffer, outputFormat)))))))"
  have h: "compress_handler rt lib req =
             (if \<not> truthy (own (body req) ''image'')
              then Response 400 (ErrorJson ''Image data required'')
              else case ?run of Inl e \<Rightarrow> caught e
                   | Inr (outputBuffer, outputFormat) \<Rightarrow>
                       Response 200 (CompressJson (base64_encode outputBuffer)
                                       (length outputBuffer) outputFormat))"
    by (simp add: compress_handler_def Let_def)
  from assms h obtain out outputFormat where
    run: "?run = Inr (out, outputFormat)"
    and p: "p = CompressJson (base64_encode out) (length out) outputFormat"
    by (auto simp: caught_status split: if_splits sum.splits)
  from run show ?thesis
    unfolding p by (auto simp: and_then_Inr_iff)
qed

lemma compress_handler_body:
  "body r = body req \<Longrightarrow> compress_handler rt lib r = compress_handler rt lib req"
  by (simp add: compress_handler_def)

lemma post_compress_200:
  assumes "post_compress rt lib req = Response 200 p"
  shows "compress_handler rt lib req = Response 200 p"
proof (cases "optionalApiKey (env rt) req")
  case (Inl r)
  then have "r = Response 401 (ErrorJson ''API key is required'')
           \<or> r = Response 403 (ErrorJson ''Invalid API key'')"
    by (auto simp: optionalApiKey_cases split: if_splits)
  with Inl assms show ?thesis by (auto simp: post_compress_def)
next
  case (Inr req')
  then have "compress_handler rt lib req' = compress_handler rt lib req"
    using optionalApiKey_next [of "env rt" req req'] compress_handler_body [of req' req rt lib]
    by simp
  with Inr assms show ?thesis by (simp add: post_compress_def)
qed

subsection \<open>Base64: decoding what was encoded\<close>

lemma b64_value_char: "n < 64 \<Longrightarrow> b64_value (b64_char n) = Some n"
proof -
  have "\<forall>n \<in> set [0..<64]. b64_value (b64_char n) = Some n"
    by (simp add: upt_rec b64_value_def b64_char_def)
  then show "n < 64 \<Longrightarrow> b64_value (b64_char n) = Some n" by simp
qed

lemma b64_char_not_pad: "n < 64 \<Longrightarrow> b64_char n \<noteq> CHR ''=''"
  using b64_value_char [of n] by (auto simp: b64_value_def)

lemma unat_byte_lt: "unat (a :: 8 word) < 256"
  using unsigned_less [of a] by simp

lemma sextet_bounds:
  "unat (a :: 8 word) div 4 < 64"
  "unat (a :: 8 word) mod 4 * 16 + unat (b :: 8 word) div 16 < 64"
  "unat (b :: 8 word) mod 16 * 4 + unat (c :: 8 word) div 64 < 64"
  "unat (c :: 8 word) mod 64 < 64"
  "unat (a :: 8 word) mod 4 * 16 < 64"
  "unat (b :: 8 word) mod 16 * 4 < 64"
  using unat_byte_lt [of a] unat_byte_lt [of b] unat_byte_lt [of c] by simp_all

lemma byte1:
  "(of_nat (unat a div 4 * 4 + (unat a mod 4 * 16 + unat (b :: 8 word) div 16) div 16)
      :: 8 word) = a"
proof -
  have "unat b div 16 < 16" using unat_byte_lt [of b] by simp
  then have "(unat a mod 4 * 16 + unat b div 16) div 16 = unat a mod 4" by simp
  then show ?thesis by simp
qed

lemma byte1_last: "(of_nat (unat a div 4 * 4 + (unat a mod 4 * 16) div 16) :: 8 word) = a"
  by simp

lemma byte2:
  "(of_nat ((unat a mod 4 * 16 + unat b div 16) mod 16 * 16 +
            (unat b mod 16 * 4 + unat (c :: 8 word) div 64) div 4) :: 8 word) = b"
proof -
  have b: "unat b div 16 < 16" using unat_byte_lt [of b] by simp
  have c: "unat c div 64 < 4" using unat_byte_lt [of c] by simp
  have 1: "(unat a mod 4 * 16 + unat b div 16) mod 16 = unat b div 16" using b by simp
  have 2: "(unat b mod 16 * 4 + unat c div 64) div 4 = unat b mod 16" using c by simp
  show ?thesis unfolding 1 2 by simp
qed

lemma byte2_last:
  "(of_nat ((unat a mod 4 * 16 + unat b div 16) mod 16 * 16 + (unat b mod 16 * 4) div 4)
      :: 8 word) = b"
proof -
  have b: "unat b div 16 < 16" using unat_byte_lt [of b] by simp
  have 1: "(unat a mod 4 * 16 + unat b div 16) mod 16 = unat b div 16" using b by simp
  show ?thesis unfolding 1 by simp
qed

lemma byte3:
  "(of_nat ((unat b mod 16 * 4 + unat c div 64) mod 4 * 64 + unat c mod 64) :: 8 word) = c"
proof -
  have c: "unat c div 64 < 4" using unat_byte_lt [of c] by simp
  have 1: "(unat b mod 16 * 4 + unat c div 64) mod 4 = unat c div 64" using c by simp
  show ?thesis unfolding 1 by simp
qed

lemma map_filter_Cons_Some:
  "f x = Some y \<Longrightarrow> List.map_filter f (x # xs) = y # List.map_filter f xs"
  by (simp add: List.map_filter_simps)

lemma decode_group4:
  "decode_sextets (unat a div 4 # (unat a mod 4 * 16 + unat b div 16) #
       (unat b mod 16 * 4 + unat c div 64) # unat c mod 64 # ss)
   = a # b # c # decode_sextets ss"
  by (simp only: decode_sextets.simps byte1 byte2 byte3 append_Cons append_Nil)

lemma decode_group3:
  "decode_sextets [unat a div 4, unat a mod 4 * 16 + unat b div 16, unat b mod 16 * 4]
   = [a, b]"
  by (simp only: decode_sextets.simps byte1 byte2_last)

lemma decode_group2:
  "decode_sextets [unat a div 4, unat a mod 4 * 16] = [a]"
  by (simp only: decode_sextets.simps byte1_last)

lemma base64_roundtrip: "base64_decode (base64_encode bs) = bs"
proof (induction bs rule: base64_encode.induct)
  case 1
  show ?case by (simp add: base64_decode_def)
next
  case (2 a)
  show ?case
    by (simp add: base64_decode_def b64_char_not_pad b64_value_char sextet_bounds
        map_filter_Cons_Some decode_group2 del: decode_sextets.simps)
next
  case (3 a b)
  show ?case
    by (simp add: base64_decode_def b64_char_not_pad b64_value_char sextet_bounds
        map_filter_Cons_Some decode_group3 del: decode_sextets.simps)
next
  case (4 a b c bs)
  then show ?case
    by (simp add: base64_decode_def b64_char_not_pad b64_value_char sextet_bounds
        map_filter_Cons_Some decode_group4 del: decode_sextets.simps)
qed

subsection \<open>The upload middleware and the checks of the handler\<close>





subsection \<open>Unfolding the handlers at a concrete request\<close>

lemmas sample_eval =
  post_compress_def optionalApiKey_def validateApiKey_def sample_runtime_def with_key_def
  API_KEY_def compress_handler_def own_def js_or_def Buffer_from_def base64_decode_def
  b64_value_def sample_lib_def apply_resize_def compress_format_def jpeg_options_def
  webp_options_def avif_options_def png_options_def get_def nullish_def field_def
  b64_char_def Let_def

section \<open>Properties of the service\<close>

subsection \<open>C7: the auth gate in front of the three data endpoints\<close>

text \<open>
  C7, as the code has it. With \<^verbatim>\<open>ENABLE_AUTH\<close> equal to \<^verbatim>\<open>true\<close>, each of \<^verbatim>\<open>POST /info\<close>,
  \<^verbatim>\<open>POST /compress\<close> and \<^verbatim>\<open>POST /compress/file\<close> answers 401 "API key is required" when
  the \<^verbatim>\<open>x-api-key\<close> header is absent or empty, answers 403 "Invalid API key" when the
  header is non-empty and differs from the configured key, and runs its handler (on
  the request with \<^verbatim>\<open>apiKey\<close> recorded) when the header equals the key. With any other
  value of \<^verbatim>\<open>ENABLE_AUTH\<close> each route runs its handler on the request as it is.
\<close>

theorem auth_gate:
  "(env rt ''ENABLE_AUTH'' = Some ''true'' \<and>
      (headers req ''x-api-key'' = None \<or> headers req ''x-api-key'' = Some []) \<longrightarrow>
        post_info rt lib req = Response 401 (ErrorJson ''API key is required'') \<and>
        post_compress rt lib req = Response 401 (ErrorJson ''API key is required'') \<and>
        post_compress_file rt lib req = Response 401 (ErrorJson ''API key is required''))
   \<and> (env rt ''ENABLE_AUTH'' = Some ''true'' \<and> headers req ''x-api-key'' = Some k \<and>
        k \<noteq> [] \<and> k \<noteq> API_KEY (env rt) \<longrightarrow>
        post_info rt lib req = Response 403 (ErrorJson ''Invalid API key'') \<and>
        post_compress rt lib req = Response 403 (ErrorJson ''Invalid API key'') \<and>
        post_compress_file rt lib req = Response 403 (ErrorJson ''Invalid API key''))
   \<and> (env rt ''ENABLE_AUTH'' = Some ''true'' \<and>
        headers req ''x-api-key'' = Some (API_KEY (env rt)) \<longrightarrow>
        post_info rt lib req = info_handler rt lib (req\<lparr>apiKey := Some (API_KEY (env rt))\<rparr>) \<and>
        post_compress rt lib req =
          compress_handler rt lib (req\<lparr>apiKey := Some (API_KEY (env rt))\<rparr>) \<and>
        post_compress_file rt lib req =
          compress_file_handler rt lib (req\<lparr>apiKey := Some (API_KEY (env rt))\<rparr>))
   \<and> (env rt ''ENABLE_AUTH'' \<noteq> Some ''true'' \<longrightarrow>
        post_info rt lib req = info_handler rt lib req \<and>
        post_compress rt lib req = compress_handler rt lib req \<and>
        post_compress_file rt lib req = compress_file_handler rt lib req)"
  by (simp add: post_info_def post_compress_def post_compress_file_def optionalApiKey_cases
      API_KEY_nonempty)

text \<open>
  The four cases at concrete requests: no header, a wrong key, the right key (the
  handler then answers for the missing file), and authentication switched off.
\<close>

theorem auth_gate_witness:
  "post_info sample_runtime sample_lib
      \<lparr>headers = with_key None, body = [], req_file = None, apiKey = None\<rparr>
     = Response 401 (ErrorJson ''API key is required'')
   \<and> post_compress sample_runtime sample_lib
      \<lparr>headers = with_key (Some ''guess''), body = [], req_file = None, apiKey = None\<rparr>
     = Response 403 (ErrorJson ''Invalid API key'')
   \<and> post_compress_file sample_runtime sample_lib
      \<lparr>headers = with_key (Some ''secret''), body = [], req_file = None, apiKey = None\<rparr>
     = Response 400 (ErrorJson ''No file uploaded'')
   \<and> post_info (sample_runtime\<lparr>env := (\<lambda>k. None)\<rparr>) sample_lib
      \<lparr>headers = with_key None, body = [], req_file = None, apiKey = None\<rparr>
     = Response 400 (ErrorJson ''Image data required'')"
  using
    auth_gate [of sample_runtime
      "\<lparr>headers = with_key None, body = [], req_file = None, apiKey = None\<rparr>" sample_lib]
    auth_gate [of sample_runtime
      "\<lparr>headers = with_key (Some ''guess''), body = [], req_file = None, apiKey = None\<rparr>"
      sample_lib "''guess''"]
    auth_gate [of sample_runtime
      "\<lparr>headers = with_key (Some ''secret''), body = [], req_file = None, apiKey = None\<rparr>"
      sample_lib]
    auth_gate [of "sample_runtime\<lparr>env := (\<lambda>k. None)\<rparr>"
      "\<lparr>headers = with_key None, body = [], req_file = None, apiKey = None\<rparr>" sample_lib]
  by (simp add: sample_runtime_def with_key_def API_KEY_def compress_file_handler_def
      info_handler_def own_def)

text \<open>
  C7 as stated fails for a request that carries the header with an empty value: the
  header is there and differs from the configured key, which is never empty, yet the
  answer is 401 and not 403, because \<^verbatim>\<open>!apiKey\<close> holds of the empty string.
\<close>

theorem empty_key_counterexample:
  "headers \<lparr>headers = with_key (Some ''''), body = [], req_file = None, apiKey = None\<rparr>
       ''x-api-key'' = Some ''''
   \<and> '''' \<noteq> API_KEY (env sample_runtime)
   \<and> post_info sample_runtime sample_lib
        \<lparr>headers = with_key (Some ''''), body = [], req_file = None, apiKey = None\<rparr>
      = Response 401 (ErrorJson ''API key is required'')
   \<and> post_info sample_runtime sample_lib
        \<lparr>headers = with_key (Some ''''), body = [], req_file = None, apiKey = None\<rparr>
      \<noteq> Response 403 (ErrorJson ''Invalid API key'')"
  by (simp add: post_info_def optionalApiKey_def validateApiKey_def with_key_def
      sample_runtime_def API_KEY_def)

subsection \<open>C8: a missing image\<close>

text \<open>
  C8. When the \<^verbatim>\<open>image\<close> property of the body is missing (\<^verbatim>\<open>undefined\<close>) or empty, or
  falsy in any other way, the handlers of \<^verbatim>\<open>POST /info\<close> and \<^verbatim>\<open>POST /compress\<close> answer 400
  with \<^verbatim>\<open>{error: "Image data required"}\<close>. The answer is the same for every runtime and
  every library, whatever their entry points would do: none of them is reached. The
  routes answer the same whenever the auth gate lets the request through.
\<close>

theorem missing_image:
  assumes "\<not> truthy (own (body req) ''image'')"
  shows "info_handler rt lib req = Response 400 (ErrorJson ''Image data required'')
       \<and> compress_handler rt lib' req = Response 400 (ErrorJson ''Image data required'')
       \<and> (\<forall>req'. optionalApiKey (env rt) req = Inr req' \<longrightarrow>
            post_info rt lib req = Response 400 (ErrorJson ''Image data required'') \<and>
            post_compress rt lib' req = Response 400 (ErrorJson ''Image data required''))"
proof -
  have h: "\<And>r. body r = body req \<Longrightarrow>
             info_handler rt lib r = Response 400 (ErrorJson ''Image data required'') \<and>
             compress_handler rt lib' r = Response 400 (ErrorJson ''Image data required'')"
    using assms by (simp add: info_handler_def compress_handler_def Let_def)
  show ?thesis
    using h [of req] h optionalApiKey_next [of "env rt" req]
    by (auto simp: post_info_def post_compress_def)
qed

text \<open>A body without \<^verbatim>\<open>image\<close>, and bodies whose \<^verbatim>\<open>image\<close> is the empty string.\<close>

theorem missing_image_witness:
  "info_handler sample_runtime sample_lib
      \<lparr>headers = with_key None, body = [], req_file = None, apiKey = None\<rparr>
     = Response 400 (ErrorJson ''Image data required'')
   \<and> compress_handler sample_runtime sample_lib
      \<lparr>headers = with_key None, body = [(''image'', JStr ''''), (''format'', JStr ''webp'')],
        req_file = None, apiKey = None\<rparr>
     = Response 400 (ErrorJson ''Image data required'')
   \<and> post_compress sample_runtime sample_lib
      \<lparr>headers = with_key (Some ''secret''), body = [(''image'', JStr '''')],
        req_file = None, apiKey = None\<rparr>
     = Response 400 (ErrorJson ''Image data required'')"
proof -
  have a: "\<not> truthy (own (body \<lparr>headers = with_key None, body = [], req_file = None,
              apiKey = None\<rparr>) ''image'')"
    by (simp add: own_def)
  have b: "\<not> truthy (own (body \<lparr>headers = with_key None,
              body = [(''image'', JStr ''''), (''format'', JStr ''webp'')],
              req_file = None, apiKey = None\<rparr>) ''image'')"
    by (simp add: own_def)
  have c: "\<not> truthy (own (body \<lparr>headers = with_key (Some ''secret''),
              body = [(''image'', JStr '''')], req_file = None, apiKey = None\<rparr>) ''image'')"
    by (simp add: own_def)
  have d: "optionalApiKey (env sample_runtime)
             \<lparr>headers = with_key (Some ''secret''), body = [(''image'', JStr '''')],
               req_file = None, apiKey = None\<rparr>
           = Inr \<lparr>headers = with_key (Some ''secret''), body = [(''image'', JStr '''')],
               req_file = None, apiKey = Some ''secret''\<rparr>"
    by (simp add: optionalApiKey_def validateApiKey_def sample_runtime_def with_key_def
        API_KEY_def)
  show ?thesis
    using missing_image [OF a, of sample_runtime sample_lib sample_lib]
      missing_image [OF b, of sample_runtime sample_lib sample_lib]
      missing_image [OF c, of sample_runtime sample_lib sample_lib] d
    by simp
qed

subsection \<open>C9: the checks of \<^verbatim>\<open>/compress/file\<close>\<close>




subsection \<open>C1: the format name in the answer of \<^verbatim>\<open>/compress\<close>\<close>

text \<open>
  C1. Whenever \<^verbatim>\<open>POST /compress\<close> answers 200 to a request whose \<^verbatim>\<open>format\<close> is the string
  \<open>f\<close>, then \<open>f\<close> is one of the six supported names and the answer is
  \<^verbatim>\<open>{image, size, format}\<close> with \<^verbatim>\<open>format\<close> equal to \<^verbatim>\<open>mozjpeg\<close> for \<^verbatim>\<open>mozjpeg\<close> and \<^verbatim>\<open>jpeg\<close>,
  to \<^verbatim>\<open>oxipng\<close> for \<^verbatim>\<open>oxipng\<close> and \<^verbatim>\<open>png\<close>, and to the caller's own string for \<^verbatim>\<open>webp\<close> and
  \<^verbatim>\<open>avif\<close>. A 200 answer is what a supported format and an image the library accepts
  lead to.
\<close>

theorem canonical_format:
  assumes "post_compress rt lib req = Response 200 p"
      and "own (body req) ''format'' = JStr f"
  shows "f \<in> {''mozjpeg'', ''jpeg'', ''webp'', ''avif'', ''oxipng'', ''png''}
       \<and> (\<exists>img n. p = CompressJson img n
             (JStr (if f = ''mozjpeg'' \<or> f = ''jpeg'' then ''mozjpeg''
                    else if f = ''oxipng'' \<or> f = ''png'' then ''oxipng''
                    else f)))"
proof -
  from assms(1) have "compress_handler rt lib req = Response 200 p"
    by (rule post_compress_200)
  then obtain enc outputFormat s out where
    sw: "compress_format rt (JStr f) (js_or (own (body req) ''options'') (JObj []))
           = Inr (enc, outputFormat)"
    and p: "p = CompressJson (base64_encode out) (length out) outputFormat"
    using compress_handler_200 [of rt lib req p] assms(2) by auto
  from compress_format_output [OF sw] show ?thesis
    unfolding p by auto
qed

text \<open>Requests for \<^verbatim>\<open>jpeg\<close>, \<^verbatim>\<open>png\<close> and \<^verbatim>\<open>avif\<close> with the three bytes \<^verbatim>\<open>Man\<close> as image.\<close>

theorem canonical_format_witness:
  "post_compress sample_runtime sample_lib
      \<lparr>headers = with_key (Some ''secret''),
        body = [(''image'', JStr ''TWFu''), (''format'', JStr ''jpeg'')],
        req_file = None, apiKey = None\<rparr>
     = Response 200 (CompressJson ''TWFu'' 3 (JStr ''mozjpeg''))
   \<and> post_compress sample_runtime sample_lib
      \<lparr>headers = with_key (Some ''secret''),
        body = [(''image'', JStr ''TWFu''), (''format'', JStr ''png'')],
        req_file = None, apiKey = None\<rparr>
     = Response 200 (CompressJson ''TWFu'' 3 (JStr ''oxipng''))
   \<and> post_compress sample_runtime sample_lib
      \<lparr>headers = with_key (Some ''secret''),
        body = [(''image'', JStr ''TWFu''), (''format'', JStr ''avif'')],
        req_file = None, apiKey = None\<rparr>
     = Response 200 (CompressJson ''TWFu'' 3 (JStr ''avif''))
   \<and> {''jpeg'', ''png'', ''avif''}
        \<subseteq> {''mozjpeg'', ''jpeg'', ''webp'', ''avif'', ''oxipng'', ''png''}"
proof -
  let ?req = "\<lambda>f. \<lparr>headers = with_key (Some ''secret''),
        body = [(''image'', JStr ''TWFu''), (''format'', JStr f)],
        req_file = None, apiKey = None\<rparr>"
  have run1: "post_compress sample_runtime sample_lib (?req ''jpeg'')
               = Response 200 (CompressJson ''TWFu'' 3 (JStr ''mozjpeg''))"
    by (simp add: sample_eval)
  have run2: "post_compress sample_runtime sample_lib (?req ''png'')
               = Response 200 (CompressJson ''TWFu'' 3 (JStr ''oxipng''))"
    by (simp add: sample_eval)
  have run3: "post_compress sample_runtime sample_lib (?req ''avif'')
               = Response 200 (CompressJson ''TWFu'' 3 (JStr ''avif''))"
    by (simp add: sample_eval)
  have fmt: "\<And>f. own (body (?req f)) ''format'' = JStr f"
    by (simp add: own_def)
  from canonical_format [OF run1 fmt] canonical_format [OF run2 fmt]
    canonical_format [OF run3 fmt] run1 run2 run3
  show ?thesis by simp
qed

subsection \<open>C2: the size in the answer of \<^verbatim>\<open>/compress\<close>\<close>

text \<open>
  C2. Whenever \<^verbatim>\<open>POST /compress\<close> answers 200, the answer is \<^verbatim>\<open>{image, size, format}\<close>
  where, for the buffer that \<^verbatim>\<open>toBuffer\<close> returned, \<^verbatim>\<open>size\<close> is the length of that
  buffer, decoding \<^verbatim>\<open>image\<close> as base64 gives the buffer back, and so \<^verbatim>\<open>size\<close> is the
  number of bytes that decoding \<^verbatim>\<open>image\<close> yields.
\<close>

theorem size_is_decoded_length:
  assumes "post_compress rt lib req = Response 200 p"
  shows "\<exists>img n fmt s out.
           p = CompressJson img n fmt \<and> toBuffer lib s = Inr out \<and>
           n = length out \<and> base64_decode img = out \<and> n = length (base64_decode img)"
proof -
  from assms have "compress_handler rt lib req = Response 200 p"
    by (rule post_compress_200)
  then obtain outputFormat s out where
    out: "toBuffer lib s = Inr out"
    and p: "p = CompressJson (base64_encode out) (length out) outputFormat"
    using compress_handler_200 [of rt lib req p] by auto
  show ?thesis
    using out p base64_roundtrip [of out] by auto
qed

text \<open>A two-byte output, whose encoding ends in padding.\<close>

theorem size_is_decoded_length_witness:
  "post_compress sample_runtime sample_lib
      \<lparr>headers = with_key (Some ''secret''),
        body = [(''image'', JStr ''TWE=''), (''format'', JStr ''webp'')],
        req_file = None, apiKey = None\<rparr>
     = Response 200 (CompressJson ''TWE='' 2 (JStr ''webp''))
   \<and> base64_decode ''TWE='' = [77, 97]
   \<and> (\<exists>s. toBuffer sample_lib s = Inr [77, 97])"
proof -
  let ?req = "\<lparr>headers = with_key (Some ''secret''),
        body = [(''image'', JStr ''TWE=''), (''format'', JStr ''webp'')],
        req_file = None, apiKey = None\<rparr>"
  have run: "post_compress sample_runtime sample_lib ?req
               = Response 200 (CompressJson ''TWE='' 2 (JStr ''webp''))"
    by (simp add: sample_eval)
  have dec: "base64_decode ''TWE='' = [77, 97]"
    by (simp add: base64_decode_def b64_value_def)
  from size_is_decoded_length [OF run] run dec show ?thesis
    by (auto simp: sample_lib_def)
qed

subsection \<open>C5: the options of the JPEG encoder\<close>

text \<open>
  C5 does not hold of \<^verbatim>\<open>/compress/file\<close> when the \<^verbatim>\<open>options\<close> field is the JSON text
  \<^verbatim>\<open>null\<close>, be the request taken at the handler or as the multipart upload it arrives
  as. \<^verbatim>\<open>JSON.parse\<close> yields \<^verbatim>\<open>null\<close>, the first read \<^verbatim>\<open>options.quality\<close> throws, and
  the answer is 500 with the message of the TypeError; \<^verbatim>\<open>.jpeg()\<close> is not called, so no
  quality of 75, no \<^verbatim>\<open>progressive\<close> and no \<^verbatim>\<open>mozjpeg\<close> reach the encoder. The sibling
  path does what the claim says: \<^verbatim>\<open>/compress\<close> turns \<^verbatim>\<open>options: null\<close> into the empty bag
  through \<^verbatim>\<open>req.body.options || {}\<close> and encodes with the defaults, as \<^verbatim>\<open>/compress/file\<close>
  itself does when the \<^verbatim>\<open>options\<close> field is absent.
\<close>

theorem jpeg_null_options:
  "compress_file_handler sample_runtime sample_lib
      \<lparr>headers = with_key None,
        body = [(''format'', JStr ''jpeg''), (''options'', JStr ''null'')],
        req_file = Some [1, 2, 3], apiKey = None\<rparr>
     = Response 500 (ErrorJson (''Cannot read properties of null (reading '' @ [CHR 0x27] @
                                 ''quality'' @ [CHR 0x27] @ '')''))
   \<and> compress_file_endpoint sample_runtime sample_upload sample_lib
      (Some [Field ''format'' ''jpeg'', Field ''options'' ''null'',
             File ''image'' ''a.jpg'' [1, 2, 3]])
      (incoming (with_key None) [])
     = Response 500 (ErrorJson (''Cannot read properties of null (reading '' @ [CHR 0x27] @
                                 ''quality'' @ [CHR 0x27] @ '')''))
   \<and> file_format (JStr ''jpeg'') JNull
     = Inl (Error (''Cannot read properties of null (reading '' @ [CHR 0x27] @
                    ''quality'' @ [CHR 0x27] @ '')''))
   \<and> file_format (JStr ''mozjpeg'') JNull
     = Inl (Error (''Cannot read properties of null (reading '' @ [CHR 0x27] @
                    ''quality'' @ [CHR 0x27] @ '')''))
   \<and> compress_handler sample_runtime sample_lib
      \<lparr>headers = with_key None,
        body = [(''image'', JStr ''TWFu''), (''format'', JStr ''jpeg''), (''options'', JNull)],
        req_file = None, apiKey = None\<rparr>
     = Response 200 (CompressJson ''TWFu'' 3 (JStr ''mozjpeg''))
   \<and> compress_format sample_runtime (JStr ''jpeg'')
        (js_or (own [(''image'', JStr ''TWFu''), (''format'', JStr ''jpeg''), (''options'', JNull)]
                  ''options'') (JObj []))
     = Inr (Jpeg (JNum 75) True True, JStr ''mozjpeg'')
   \<and> compress_file_handler sample_runtime sample_lib
      \<lparr>headers = with_key None, body = [(''format'', JStr ''jpeg'')],
        req_file = Some [1, 2, 3], apiKey = None\<rparr>
     = Response 200 (Binary ''image/jpeg'' ''3'' [1, 2, 3])"
  by (simp add: compress_file_handler_def file_format_def caught_def sample_eval
      compress_file_endpoint_def upload_single_def incoming_def sample_upload_def)

text \<open>
  On every other input the claim holds. For the formats \<^verbatim>\<open>mozjpeg\<close> and \<^verbatim>\<open>jpeg\<close> the switch
  of \<^verbatim>\<open>/compress\<close> always calls \<^verbatim>\<open>.jpeg()\<close> with \<^verbatim>\<open>quality\<close> equal to \<^verbatim>\<open>options.quality\<close> when
  that is truthy and 75 otherwise, so 75 when it is not supplied, \<^verbatim>\<open>progressive\<close> true
  unless \<^verbatim>\<open>options.progressive === false\<close>, and \<^verbatim>\<open>mozjpeg\<close> true; the switch of
  \<^verbatim>\<open>/compress/file\<close> does the same on every option bag but \<^verbatim>\<open>null\<close>.
\<close>

lemma jpeg_options_on_readable_bag:
  assumes "format = JStr ''mozjpeg'' \<or> format = JStr ''jpeg''"
  shows "(let options = js_or (own (body req) ''options'') (JObj []) in
          \<exists>q. compress_format rt format options =
                 Inr (Jpeg q (field options ''progressive'' \<noteq> JBool False) True,
                      JStr ''mozjpeg'')
             \<and> q = (if truthy (field options ''quality'') then field options ''quality''
                     else JNum 75)
             \<and> (field options ''quality'' = JUndefined \<longrightarrow> q = JNum 75))
       \<and> (\<not> nullish options \<longrightarrow>
            (\<exists>q. file_format format options =
                   Inr (Some (Jpeg q (field options ''progressive'' \<noteq> JBool False) True,
                              ''image/jpeg''))
               \<and> q = (if truthy (field options ''quality'') then field options ''quality''
                       else JNum 75)
               \<and> (field options ''quality'' = JUndefined \<longrightarrow> q = JNum 75)))"
proof (intro conjI impI)
  have r: "\<not> nullish (js_or (own (body req) ''options'') (JObj []))"
    by (rule js_or_object_defined)
  show "let options = js_or (own (body req) ''options'') (JObj []) in
          \<exists>q. compress_format rt format options =
                 Inr (Jpeg q (field options ''progressive'' \<noteq> JBool False) True,
                      JStr ''mozjpeg'')
             \<and> q = (if truthy (field options ''quality'') then field options ''quality''
                     else JNum 75)
             \<and> (field options ''quality'' = JUndefined \<longrightarrow> q = JNum 75)"
    unfolding Let_def using assms
    by (auto simp: compress_format_defined [OF r] js_or_cases [of "field _ ''quality''"])
next
  assume "\<not> nullish options"
  with assms show "\<exists>q. file_format format options =
                   Inr (Some (Jpeg q (field options ''progressive'' \<noteq> JBool False) True,
                              ''image/jpeg''))
               \<and> q = (if truthy (field options ''quality'') then field options ''quality''
                       else JNum 75)
               \<and> (field options ''quality'' = JUndefined \<longrightarrow> q = JNum 75)"
    by (auto simp: file_format_defined js_or_cases)
qed

subsection \<open>C6: the options of the WebP encoder\<close>

text \<open>
  C6, as the code has it. For the format \<^verbatim>\<open>webp\<close>, every request to \<^verbatim>\<open>/compress\<close>, and
  every request to \<^verbatim>\<open>/compress/file\<close> whose option bag is not \<^verbatim>\<open>null\<close>, calls \<^verbatim>\<open>.webp()\<close>
  with these options: \<^verbatim>\<open>quality\<close> is \<^verbatim>\<open>options.quality\<close> when truthy and 75 otherwise, so 75
  when not supplied; \<^verbatim>\<open>lossless\<close> is true iff \<^verbatim>\<open>options.lossless === true\<close>; \<^verbatim>\<open>nearLossless\<close>
  is true iff \<^verbatim>\<open>options.near_lossless === true\<close>; \<^verbatim>\<open>smartSubsample\<close> is true unless
  \<^verbatim>\<open>options.use_sharp_yuv === false\<close>; \<^verbatim>\<open>effort\<close> is \<^verbatim>\<open>options.method\<close> when that is supplied
  and truthy, and 4 otherwise. Nothing is said here of \<^verbatim>\<open>/compress/file\<close> with the option
  bag \<^verbatim>\<open>null\<close>, where the reads throw. (\<^verbatim>\<open>JSON.parse\<close> never yields \<^verbatim>\<open>undefined\<close>, so of a
  parsed bag \<open>\<not> nullish\<close> says that it is not \<^verbatim>\<open>null\<close>.)
\<close>

theorem webp_mapping:
  "(let options = js_or (own (body req) ''options'') (JObj []) in
      \<exists>q e. compress_format rt (JStr ''webp'') options =
               Inr (Webp q (field options ''lossless'' = JBool True)
                           (field options ''near_lossless'' = JBool True)
                           (field options ''use_sharp_yuv'' \<noteq> JBool False) e,
                    JStr ''webp'')
           \<and> q = (if truthy (field options ''quality'') then field options ''quality''
                   else JNum 75)
           \<and> (field options ''quality'' = JUndefined \<longrightarrow> q = JNum 75)
           \<and> e = (if truthy (field options ''method'') then field options ''method''
                   else JNum 4)
           \<and> (field options ''method'' = JUndefined \<longrightarrow> e = JNum 4))
   \<and> (\<not> nullish options \<longrightarrow>
        (\<exists>q e. file_format (JStr ''webp'') options =
                 Inr (Some (Webp q (field options ''lossless'' = JBool True)
                                   (field options ''near_lossless'' = JBool True)
                                   (field options ''use_sharp_yuv'' \<noteq> JBool False) e,
                            ''image/webp''))
             \<and> q = (if truthy (field options ''quality'') then field options ''quality''
                     else JNum 75)
             \<and> (field options ''quality'' = JUndefined \<longrightarrow> q = JNum 75)
             \<and> e = (if truthy (field options ''method'') then field options ''method''
                     else JNum 4)
             \<and> (field options ''method'' = JUndefined \<longrightarrow> e = JNum 4)))"
proof (intro conjI impI)
  have r: "\<not> nullish (js_or (own (body req) ''options'') (JObj []))"
    by (rule js_or_object_defined)
  show "let options = js_or (own (body req) ''options'') (JObj []) in
      \<exists>q e. compress_format rt (JStr ''webp'') options =
               Inr (Webp q (field options ''lossless'' = JBool True)
                           (field options ''near_lossless'' = JBool True)
                           (field options ''use_sharp_yuv'' \<noteq> JBool False) e,
                    JStr ''webp'')
           \<and> q = (if truthy (field options ''quality'') then field options ''quality''
                   else JNum 75)
           \<and> (field options ''quality'' = JUndefined \<longrightarrow> q = JNum 75)
           \<and> e = (if truthy (field options ''method'') then field options ''method''
                   else JNum 4)
           \<and> (field options ''method'' = JUndefined \<longrightarrow> e = JNum 4)"
    unfolding Let_def
    by (auto simp: compress_format_defined [OF r] js_or_cases [of "field _ ''quality''"]
        js_or_cases [of "field _ ''method''"])
next
  assume "\<not> nullish options"
  then show "\<exists>q e. file_format (JStr ''webp'') options =
                 Inr (Some (Webp q (field options ''lossless'' = JBool True)
                                   (field options ''near_lossless'' = JBool True)
                                   (field options ''use_sharp_yuv'' \<noteq> JBool False) e,
                            ''image/webp''))
             \<and> q = (if truthy (field options ''quality'') then field options ''quality''
                     else JNum 75)
             \<and> (field options ''quality'' = JUndefined \<longrightarrow> q = JNum 75)
             \<and> e = (if truthy (field options ''method'') then field options ''method''
                     else JNum 4)
             \<and> (field options ''method'' = JUndefined \<longrightarrow> e = JNum 4)"
    by (auto simp: file_format_defined js_or_cases)
qed

text \<open>
  Two bodies of \<^verbatim>\<open>/compress\<close>, one with a method and \<^verbatim>\<open>lossless\<close> and one with
  \<^verbatim>\<open>options: null\<close>, and an option bag of \<^verbatim>\<open>/compress/file\<close> with \<^verbatim>\<open>use_sharp_yuv: false\<close>.
\<close>

theorem webp_mapping_witness:
  "compress_format sample_runtime (JStr ''webp'')
      (js_or (own [(''image'', JStr ''TWFu''), (''format'', JStr ''webp''),
                   (''options'', JObj [(''method'', JNum 6), (''lossless'', JBool True)])]
                ''options'') (JObj []))
     = Inr (Webp (JNum 75) True False True (JNum 6), JStr ''webp'')
   \<and> compress_format sample_runtime (JStr ''webp'')
      (js_or (own [(''image'', JStr ''TWFu''), (''format'', JStr ''webp''), (''options'', JNull)]
                ''options'') (JObj []))
     = Inr (Webp (JNum 75) False False True (JNum 4), JStr ''webp'')
   \<and> file_format (JStr ''webp'') (JObj [(''use_sharp_yuv'', JBool False)])
     = Inr (Some (Webp (JNum 75) False False False (JNum 4), ''image/webp''))
   \<and> \<not> nullish (JObj [(''use_sharp_yuv'', JBool False)])"
  using
    webp_mapping [of "\<lparr>headers = with_key None,
        body = [(''image'', JStr ''TWFu''), (''format'', JStr ''webp''),
                (''options'', JObj [(''method'', JNum 6), (''lossless'', JBool True)])],
        req_file = None, apiKey = None\<rparr>" sample_runtime "JObj [(''use_sharp_yuv'', JBool False)]"]
    webp_mapping [of "\<lparr>headers = with_key None,
        body = [(''image'', JStr ''TWFu''), (''format'', JStr ''webp''), (''options'', JNull)],
        req_file = None, apiKey = None\<rparr>" sample_runtime "JObj [(''use_sharp_yuv'', JBool False)]"]
  by (simp add: own_def js_or_def field_def nullish_def)

text \<open>
  C6 as stated fails where the caller supplies \<^verbatim>\<open>method: 0\<close>: the method is supplied,
  and the effort is 4, not 0, on both endpoints.
\<close>

theorem webp_method_zero_counterexample:
  "field (JObj [(''method'', JNum 0)]) ''method'' = JNum 0
   \<and> compress_format sample_runtime (JStr ''webp'')
        (js_or (own [(''image'', JStr ''TWFu''), (''format'', JStr ''webp''),
                     (''options'', JObj [(''method'', JNum 0)])] ''options'') (JObj []))
      = Inr (Webp (JNum 75) False False True (JNum 4), JStr ''webp'')
   \<and> file_format (JStr ''webp'') (JObj [(''method'', JNum 0)])
      = Inr (Some (Webp (JNum 75) False False True (JNum 4), ''image/webp''))
   \<and> JNum 4 \<noteq> JNum 0"
  by (simp add: compress_format_def file_format_def webp_options_def get_def nullish_def
      field_def own_def js_or_def)

subsection \<open>C10: a zero is an absent option\<close>

text \<open>
  C10. On both endpoints a numeric option equal to 0 is replaced by the default of the
  format: \<^verbatim>\<open>quality: 0\<close> becomes 75 for \<^verbatim>\<open>mozjpeg\<close>, \<^verbatim>\<open>jpeg\<close> and \<^verbatim>\<open>webp\<close> and 50 for \<^verbatim>\<open>avif\<close>;
  \<^verbatim>\<open>method: 0\<close> becomes effort 4 for \<^verbatim>\<open>webp\<close>; \<^verbatim>\<open>effort: 0\<close> becomes 4 for \<^verbatim>\<open>avif\<close> and 7 for
  \<^verbatim>\<open>oxipng\<close> and \<^verbatim>\<open>png\<close>; \<^verbatim>\<open>level: 0\<close> becomes compression level 2 for \<^verbatim>\<open>oxipng\<close> and \<^verbatim>\<open>png\<close>.
  A resize \<^verbatim>\<open>width\<close> or \<^verbatim>\<open>height\<close> of 0 is not set in the resize options. And a zero is
  treated as absent throughout: two values that differ only in that properties which
  are 0 in the first are absent from the second give the same resize options and, as
  option bags, the same outcome of either format switch.
\<close>

theorem zero_is_absent:
  "(field options ''quality'' = JNum 0 \<longrightarrow>
      (format = JStr ''mozjpeg'' \<or> format = JStr ''jpeg'' \<or> format = JStr ''webp'' \<longrightarrow>
         (\<exists>enc outputFormat contentType.
            compress_format rt format options = Inr (enc, outputFormat) \<and>
            file_format format options = Inr (Some (enc, contentType)) \<and>
            quality enc = JNum 75))
    \<and> (\<exists>enc outputFormat contentType.
            compress_format rt (JStr ''avif'') options = Inr (enc, outputFormat) \<and>
            file_format (JStr ''avif'') options = Inr (Some (enc, contentType)) \<and>
            quality enc = JNum 50))
   \<and> (field options ''method'' = JNum 0 \<longrightarrow>
        (\<exists>enc outputFormat contentType.
            compress_format rt (JStr ''webp'') options = Inr (enc, outputFormat) \<and>
            file_format (JStr ''webp'') options = Inr (Some (enc, contentType)) \<and>
            effort enc = JNum 4))
   \<and> (field options ''effort'' = JNum 0 \<longrightarrow>
        (\<exists>enc outputFormat contentType.
            compress_format rt (JStr ''avif'') options = Inr (enc, outputFormat) \<and>
            file_format (JStr ''avif'') options = Inr (Some (enc, contentType)) \<and>
            effort enc = JNum 4)
      \<and> (format = JStr ''oxipng'' \<or> format = JStr ''png'' \<longrightarrow>
          (\<exists>enc outputFormat contentType.
            compress_format rt format options = Inr (enc, outputFormat) \<and>
            file_format format options = Inr (Some (enc, contentType)) \<and>
            effort enc = JNum 7)))
   \<and> (field options ''level'' = JNum 0 \<longrightarrow>
        (format = JStr ''oxipng'' \<or> format = JStr ''png'' \<longrightarrow>
          (\<exists>enc outputFormat contentType.
            compress_format rt format options = Inr (enc, outputFormat) \<and>
            file_format format options = Inr (Some (enc, contentType)) \<and>
            compressionLevel enc = JNum 2)))
   \<and> (field rz ''width'' = JNum 0 \<longrightarrow> width (resizeOptions rz) = None)
   \<and> (field rz ''height'' = JNum 0 \<longrightarrow> height (resizeOptions rz) = None)
   \<and> ((\<forall>k. field v k = field v' k \<or> (field v k = JNum 0 \<and> field v' k = JUndefined)) \<longrightarrow>
        resizeOptions v = resizeOptions v' \<and>
        (\<not> nullish v \<and> \<not> nullish v' \<longrightarrow>
           compress_format rt format v = compress_format rt format v' \<and>
           file_format format v = file_format format v'))"
proof -
  have zero_quality: "field options ''quality'' = JNum 0 \<longrightarrow>
      (format = JStr ''mozjpeg'' \<or> format = JStr ''jpeg'' \<or> format = JStr ''webp'' \<longrightarrow>
         (\<exists>enc outputFormat contentType.
            compress_format rt format options = Inr (enc, outputFormat) \<and>
            file_format format options = Inr (Some (enc, contentType)) \<and>
            quality enc = JNum 75))
    \<and> (\<exists>enc outputFormat contentType.
            compress_format rt (JStr ''avif'') options = Inr (enc, outputFormat) \<and>
            file_format (JStr ''avif'') options = Inr (Some (enc, contentType)) \<and>
            quality enc = JNum 50)"
    using zero_defined [of options "''quality''"]
    by (auto simp: compress_format_defined file_format_defined)
  have zero_method: "field options ''method'' = JNum 0 \<longrightarrow>
        (\<exists>enc outputFormat contentType.
            compress_format rt (JStr ''webp'') options = Inr (enc, outputFormat) \<and>
            file_format (JStr ''webp'') options = Inr (Some (enc, contentType)) \<and>
            effort enc = JNum 4)"
    using zero_defined [of options "''method''"]
    by (auto simp: compress_format_defined file_format_defined)
  have zero_effort: "field options ''effort'' = JNum 0 \<longrightarrow>
        (\<exists>enc outputFormat contentType.
            compress_format rt (JStr ''avif'') options = Inr (enc, outputFormat) \<and>
            file_format (JStr ''avif'') options = Inr (Some (enc, contentType)) \<and>
            effort enc = JNum 4)
      \<and> (format = JStr ''oxipng'' \<or> format = JStr ''png'' \<longrightarrow>
          (\<exists>enc outputFormat contentType.
            compress_format rt format options = Inr (enc, outputFormat) \<and>
            file_format format options = Inr (Some (enc, contentType)) \<and>
            effort enc = JNum 7))"
    using zero_defined [of options "''effort''"]
    by (auto simp: compress_format_defined file_format_defined)
  have zero_level: "field options ''level'' = JNum 0 \<longrightarrow>
        (format = JStr ''oxipng'' \<or> format = JStr ''png'' \<longrightarrow>
          (\<exists>enc outputFormat contentType.
            compress_format rt format options = Inr (enc, outputFormat) \<and>
            file_format format options = Inr (Some (enc, contentType)) \<and>
            compressionLevel enc = JNum 2))"
    using zero_defined [of options "''level''"]
    by (auto simp: compress_format_defined file_format_defined)
  have dims: "(field rz ''width'' = JNum 0 \<longrightarrow> width (resizeOptions rz) = None)
            \<and> (field rz ''height'' = JNum 0 \<longrightarrow> height (resizeOptions rz) = None)"
    by (simp add: resizeOptions_def)
  have same: "(\<forall>k. field v k = field v' k \<or> (field v k = JNum 0 \<and> field v' k = JUndefined)) \<longrightarrow>
        resizeOptions v = resizeOptions v' \<and>
        (\<not> nullish v \<and> \<not> nullish v' \<longrightarrow>
           compress_format rt format v = compress_format rt format v' \<and>
           file_format format v = file_format format v')"
  proof (intro impI)
    assume h: "\<forall>k. field v k = field v' k \<or> (field v k = JNum 0 \<and> field v' k = JUndefined)"
    have k: "\<And>k. field v k = field v' k \<or> (field v k = JNum 0 \<and> field v' k = JUndefined)"
      using h by blast
    note z = zero_like [OF k]
    have r: "resizeOptions v = resizeOptions v'"
      unfolding resizeOptions_def
      using z(3) [of "''width''"] z(3) [of "''height''"] z(3) [of "''fitMethod''"]
        z(3) [of "''method''"] z(5) [of "''width''"] z(5) [of "''height''"]
        z(4) [of "''fitMethod''"] z(4) [of "''method''"]
      by simp
    have s: "\<not> nullish v \<and> \<not> nullish v' \<longrightarrow>
           compress_format rt format v = compress_format rt format v' \<and>
           file_format format v = file_format format v'"
      by (simp add: compress_format_defined file_format_defined z(1) z(2))
    from r s show "resizeOptions v = resizeOptions v' \<and>
        (\<not> nullish v \<and> \<not> nullish v' \<longrightarrow>
           compress_format rt format v = compress_format rt format v' \<and>
           file_format format v = file_format format v')" by simp
  qed
  from zero_quality zero_method zero_effort zero_level dims same show ?thesis by blast
qed

text \<open>
  Option bags with a zero, one of them against the empty bag; and resize requests of
  width 0 and of height 0.
\<close>

theorem zero_is_absent_witness:
  "compress_format sample_runtime (JStr ''jpeg'') (JObj [(''quality'', JNum 0)])
     = Inr (Jpeg (JNum 75) True True, JStr ''mozjpeg'')
   \<and> file_format (JStr ''avif'') (JObj [(''quality'', JNum 0), (''effort'', JNum 0)])
     = Inr (Some (Avif (JNum 50) False (JNum 4), ''image/avif''))
   \<and> file_format (JStr ''webp'') (JObj [(''method'', JNum 0)])
     = Inr (Some (Webp (JNum 75) False False True (JNum 4), ''image/webp''))
   \<and> compress_format sample_runtime (JStr ''png'') (JObj [(''level'', JNum 0), (''effort'', JNum 0)])
     = Inr (Png (JNum 2) False (JNum 7), JStr ''oxipng'')
   \<and> resizeOptions (JObj [(''enabled'', JBool True), (''width'', JNum 0), (''height'', JNum 600)])
     = \<lparr>width = None, height = Some (JNum 600), fit = None, kernel = None\<rparr>
   \<and> resizeOptions (JObj [(''enabled'', JBool True), (''width'', JNum 800), (''height'', JNum 0)])
     = \<lparr>width = Some (JNum 800), height = None, fit = None, kernel = None\<rparr>
   \<and> compress_format sample_runtime (JStr ''png'') (JObj [(''level'', JNum 0)])
     = compress_format sample_runtime (JStr ''png'') (JObj [])"
proof -
  have same: "\<forall>k. field (JObj [(''level'', JNum 0)]) k = field (JObj []) k \<or>
                (field (JObj [(''level'', JNum 0)]) k = JNum 0 \<and> field (JObj []) k = JUndefined)"
    by (simp add: field_def own_def)
  from
    zero_is_absent [of "JObj [(''quality'', JNum 0)]" "JStr ''jpeg''" sample_runtime]
    zero_is_absent [of "JObj [(''quality'', JNum 0), (''effort'', JNum 0)]" "JStr ''avif''"
      sample_runtime]
    zero_is_absent [of "JObj [(''method'', JNum 0)]" "JStr ''webp''" sample_runtime
      "JObj [(''enabled'', JBool True), (''width'', JNum 800), (''height'', JNum 0)]"]
    zero_is_absent [of "JObj [(''level'', JNum 0), (''effort'', JNum 0)]" "JStr ''png''"
      sample_runtime
      "JObj [(''enabled'', JBool True), (''width'', JNum 0), (''height'', JNum 600)]"
      "JObj [(''level'', JNum 0)]" "JObj []"]
    same
  show ?thesis
    by (simp add: compress_format_def file_format_def jpeg_options_def webp_options_def
        avif_options_def png_options_def get_def nullish_def field_def own_def js_or_def
        resizeOptions_def)
qed

subsection \<open>C4: the resize options\<close>

text \<open>
  C4. When \<^verbatim>\<open>resize.enabled\<close> is truthy, the handler of \<^verbatim>\<open>/compress\<close> calls \<^verbatim>\<open>.resize()\<close>
  with the options planned here, and the resize that the library then performs has fit
  \<^verbatim>\<open>fill\<close> for \<^verbatim>\<open>fitMethod\<close> \<^verbatim>\<open>stretch\<close>, \<^verbatim>\<open>inside\<close> for \<^verbatim>\<open>contain\<close>, and \<^verbatim>\<open>cover\<close> for anything
  else or absent; it has kernel \<^verbatim>\<open>lanczos3\<close> for \<^verbatim>\<open>method\<close> \<^verbatim>\<open>lanczos3\<close>, \<^verbatim>\<open>mitchell\<close> for
  \<^verbatim>\<open>mitchell\<close>, \<^verbatim>\<open>cubic\<close> for \<^verbatim>\<open>catrom\<close>, and \<^verbatim>\<open>lanczos3\<close> for anything else or absent. Width
  and height are passed through when they are truthy, and so only when present. The
  planner itself names a fit or a kernel only for a truthy \<^verbatim>\<open>fitMethod\<close> or \<^verbatim>\<open>method\<close>;
  for an absent one the value comes from the defaults of the library.
\<close>

theorem resize_plan:
  "(truthy (field rz ''enabled'') \<longrightarrow>
      apply_resize lib s rz = resize lib s (resizeOptions rz))
   \<and> fit (sharp_defaults (resizeOptions rz)) =
        Some (if field rz ''fitMethod'' = JStr ''stretch'' then ''fill''
              else if field rz ''fitMethod'' = JStr ''contain'' then ''inside''
              else ''cover'')
   \<and> kernel (sharp_defaults (resizeOptions rz)) =
        Some (if field rz ''method'' = JStr ''lanczos3'' then ''lanczos3''
              else if field rz ''method'' = JStr ''mitchell'' then ''mitchell''
              else if field rz ''method'' = JStr ''catrom'' then ''cubic''
              else ''lanczos3'')
   \<and> width (sharp_defaults (resizeOptions rz)) =
        (if truthy (field rz ''width'') then Some (field rz ''width'') else None)
   \<and> height (sharp_defaults (resizeOptions rz)) =
        (if truthy (field rz ''height'') then Some (field rz ''height'') else None)
   \<and> (field rz ''width'' = JUndefined \<longrightarrow> width (sharp_defaults (resizeOptions rz)) = None)
   \<and> (field rz ''height'' = JUndefined \<longrightarrow> height (sharp_defaults (resizeOptions rz)) = None)
   \<and> fit (resizeOptions rz) =
        (if truthy (field rz ''fitMethod'')
         then Some (if field rz ''fitMethod'' = JStr ''stretch'' then ''fill''
                    else if field rz ''fitMethod'' = JStr ''contain'' then ''inside''
                    else ''cover'')
         else None)
   \<and> kernel (resizeOptions rz) =
        (if truthy (field rz ''method'')
         then Some (if field rz ''method'' = JStr ''lanczos3'' then ''lanczos3''
                    else if field rz ''method'' = JStr ''mitchell'' then ''mitchell''
                    else if field rz ''method'' = JStr ''catrom'' then ''cubic''
                    else ''lanczos3'')
         else None)"
proof -
  have en: "truthy (field rz ''enabled'') \<longrightarrow> truthy rz"
    by (cases rz) (simp_all add: field_def)
  have fm: "\<not> truthy (field rz ''fitMethod'') \<longrightarrow>
              field rz ''fitMethod'' \<noteq> JStr ''stretch'' \<and> field rz ''fitMethod'' \<noteq> JStr ''contain''"
    by auto
  have m: "\<not> truthy (field rz ''method'') \<longrightarrow>
              field rz ''method'' \<noteq> JStr ''lanczos3'' \<and> field rz ''method'' \<noteq> JStr ''mitchell''
              \<and> field rz ''method'' \<noteq> JStr ''catrom''"
    by auto
  from en fm m show ?thesis
    by (simp add: apply_resize_def resizeOptions_def sharp_defaults_def)
qed

text \<open>
  Requests naming \<^verbatim>\<open>contain\<close> and \<^verbatim>\<open>catrom\<close>, \<^verbatim>\<open>stretch\<close> and \<^verbatim>\<open>mitchell\<close>, two values
  outside the named ones, and a request that leaves fit and method out.
\<close>

theorem resize_plan_witness:
  "apply_resize sample_lib [1, 2, 3]
      (JObj [(''enabled'', JBool True), (''width'', JNum 800), (''height'', JNum 600),
             (''fitMethod'', JStr ''contain''), (''method'', JStr ''catrom'')])
     = Inr [1, 2, 3]
   \<and> sharp_defaults (resizeOptions
      (JObj [(''enabled'', JBool True), (''width'', JNum 800), (''height'', JNum 600),
             (''fitMethod'', JStr ''contain''), (''method'', JStr ''catrom'')]))
     = \<lparr>width = Some (JNum 800), height = Some (JNum 600), fit = Some ''inside'',
        kernel = Some ''cubic''\<rparr>
   \<and> sharp_defaults (resizeOptions
      (JObj [(''enabled'', JBool True), (''fitMethod'', JStr ''stretch''),
             (''method'', JStr ''mitchell'')]))
     = \<lparr>width = None, height = None, fit = Some ''fill'', kernel = Some ''mitchell''\<rparr>
   \<and> sharp_defaults (resizeOptions
      (JObj [(''enabled'', JBool True), (''height'', JNum 600), (''fitMethod'', JStr ''cover''),
             (''method'', JStr ''triangle'')]))
     = \<lparr>width = None, height = Some (JNum 600), fit = Some ''cover'',
        kernel = Some ''lanczos3''\<rparr>
   \<and> sharp_defaults (resizeOptions (JObj [(''enabled'', JBool True), (''width'', JNum 800)]))
     = \<lparr>width = Some (JNum 800), height = None, fit = Some ''cover'',
        kernel = Some ''lanczos3''\<rparr>
   \<and> resizeOptions (JObj [(''enabled'', JBool True), (''width'', JNum 800)])
     = \<lparr>width = Some (JNum 800), height = None, fit = None, kernel = None\<rparr>"
  using
    resize_plan [of "JObj [(''enabled'', JBool True), (''width'', JNum 800),
        (''height'', JNum 600), (''fitMethod'', JStr ''contain''), (''method'', JStr ''catrom'')]"
      sample_lib "[1, 2, 3]"]
    resize_plan [of "JObj [(''enabled'', JBool True), (''fitMethod'', JStr ''stretch''),
        (''method'', JStr ''mitchell'')]" sample_lib "[1, 2, 3]"]
    resize_plan [of "JObj [(''enabled'', JBool True), (''height'', JNum 600),
        (''fitMethod'', JStr ''cover''), (''method'', JStr ''triangle'')]" sample_lib "[1, 2, 3]"]
    resize_plan [of "JObj [(''enabled'', JBool True), (''width'', JNum 800)]"
      sample_lib "[1, 2, 3]"]
  by (simp add: field_def own_def sample_lib_def resizeOptions_def sharp_defaults_def)

subsection \<open>C3: an unsupported format\<close>




end
